theory Spec2Isabelle
  imports Main
begin

section \<open>Errors\<close>

text \<open>
  Go's \<^verbatim>\<open>error\<close> values. \<^verbatim>\<open>io.EOF\<close>, \<^verbatim>\<open>MissingApiKeyError\<close> and
  \<^verbatim>\<open>TruncatedStreamResponseError\<close> are the three sentinels \<^verbatim>\<open>sdk.go\<close> names; every other
  error comes from the RPC library and is carried by its message. A nil error is \<open>None\<close>
  of \<open>error option\<close>.
\<close>

datatype error =
    io_EOF
  | MissingApiKeyError
  | TruncatedStreamResponseError
  | TransportError string

section \<open>The server stream handle of the RPC library\<close>

text \<open>
  \<^verbatim>\<open>*connect.ServerStreamForClient[TIn]\<close> belongs to the connect library, not to this
  repository. \<^verbatim>\<open>sdk.go\<close> uses four of its methods: \<^verbatim>\<open>Receive\<close>, \<^verbatim>\<open>Msg\<close>, \<^verbatim>\<open>Err\<close> and
  \<^verbatim>\<open>Close\<close>. The handle is an object: a connection state \<open>conn\<close> together with the
  behaviour of the four methods on it. Nothing is assumed about that behaviour, so
  what is proved below holds for every transport.
\<close>

record ('s, 'm) ServerStreamForClient =
  conn :: 's
  receive_impl :: "'s \<Rightarrow> bool \<times> 's"
  msg_impl :: "'s \<Rightarrow> 'm"
  err_impl :: "'s \<Rightarrow> error option"
  close_impl :: "'s \<Rightarrow> error option \<times> 's"

definition Receive ::
  "('s, 'm) ServerStreamForClient \<Rightarrow> bool \<times> ('s, 'm) ServerStreamForClient" where
  "Receive st = (case receive_impl st (conn st) of (ok, c) \<Rightarrow> (ok, st\<lparr>conn := c\<rparr>))"

definition Msg :: "('s, 'm) ServerStreamForClient \<Rightarrow> 'm" where
  "Msg st = msg_impl st (conn st)"

definition Err :: "('s, 'm) ServerStreamForClient \<Rightarrow> error option" where
  "Err st = err_impl st (conn st)"

definition stream_Close ::
  "('s, 'm) ServerStreamForClient \<Rightarrow> error option \<times> ('s, 'm) ServerStreamForClient" where
  "stream_Close st = (case close_impl st (conn st) of (e, c) \<Rightarrow> (e, st\<lparr>conn := c\<rparr>))"

section \<open>ResponseStream\<close>

record ('s, 'm, 'o) ResponseStream =
  isClosed :: bool
  stream :: "('s, 'm) ServerStreamForClient"
  transformer :: "'m \<Rightarrow> 'o"

definition IsClosed :: "('s, 'm, 'o) ResponseStream \<Rightarrow> bool" where
  "IsClosed r = isClosed r"

text \<open>
  \<^verbatim>\<open>Read\<close> returns a Go pair \<^verbatim>\<open>(TOut, error)\<close> and mutates the receiver; the model returns
  the pair and the receiver after the call. \<open>emptyOut\<close> is \<^verbatim>\<open>var empty TOut\<close>, the zero value
  of the output type, which HOL has to be told.
\<close>

definition Read ::
  "'o \<Rightarrow> ('s, 'm, 'o) ResponseStream \<Rightarrow> ('o \<times> error option) \<times> ('s, 'm, 'o) ResponseStream" where
  "Read emptyOut r =
     (if isClosed r then ((emptyOut, Some io_EOF), r)
      else (case Receive (stream r) of (ok, st) \<Rightarrow>
        if \<not> ok then ((emptyOut, Some io_EOF), r\<lparr>isClosed := True, stream := st\<rparr>)
        else ((transformer r (Msg st), Err st), r\<lparr>stream := st\<rparr>)))"

text \<open>
  \<^verbatim>\<open>Close\<close> is two statements: \<^verbatim>\<open>r.isClosed = true\<close>, then \<^verbatim>\<open>return r.stream.Close()\<close>.
  \<open>requestTeardown\<close> is the second statement acting on the receiver.
\<close>

definition requestTeardown ::
  "('s, 'm, 'o) ResponseStream \<Rightarrow> error option \<times> ('s, 'm, 'o) ResponseStream" where
  "requestTeardown r = (case stream_Close (stream r) of (e, st) \<Rightarrow> (e, r\<lparr>stream := st\<rparr>))"

definition Close ::
  "('s, 'm, 'o) ResponseStream \<Rightarrow> error option \<times> ('s, 'm, 'o) ResponseStream" where
  "Close r = requestTeardown (r\<lparr>isClosed := True\<rparr>)"

definition wrapStream ::
  "('s, 'm) ServerStreamForClient \<Rightarrow> ('m \<Rightarrow> 'o) \<Rightarrow> ('s, 'm, 'o) ResponseStream" where
  "wrapStream st f = \<lparr>isClosed = False, stream = st, transformer = f\<rparr>"

text \<open>
  A caller's use of a stream is a sequence of calls. \<open>run\<close> performs them in order and
  collects what each returned.
\<close>

datatype call = CallRead | CallClose | CallIsClosed

datatype 'o outcome =
    ReadReturned 'o "error option"
  | CloseReturned "error option"
  | IsClosedReturned bool

fun run ::
  "'o \<Rightarrow> call list \<Rightarrow> ('s, 'm, 'o) ResponseStream \<Rightarrow> 'o outcome list \<times> ('s, 'm, 'o) ResponseStream" where
  "run emptyOut [] r = ([], r)"
| "run emptyOut (CallRead # cs) r =
     (case Read emptyOut r of ((v, e), r1) \<Rightarrow>
        (case run emptyOut cs r1 of (outs, r2) \<Rightarrow> (ReadReturned v e # outs, r2)))"
| "run emptyOut (CallClose # cs) r =
     (case Close r of (e, r1) \<Rightarrow>
        (case run emptyOut cs r1 of (outs, r2) \<Rightarrow> (CloseReturned e # outs, r2)))"
| "run emptyOut (CallIsClosed # cs) r =
     (case run emptyOut cs r of (outs, r2) \<Rightarrow> (IsClosedReturned (IsClosed r) # outs, r2))"

section \<open>Wire messages\<close>

text \<open>
  The message types are generated from the gateway's protocol schema and are not part
  of \<^verbatim>\<open>sdk.go\<close>, which reads two fields of a streamed chunk: \<^verbatim>\<open>Response.Role\<close> and
  \<^verbatim>\<open>Response.Content\<close>. Every other payload is opaque.
\<close>

record apigatewayv1_Message =
  msg_Role :: string
  msg_Content :: string

record apigatewayv1_ChatCompleteStreamResponse =
  Response :: apigatewayv1_Message

definition chatCompleteStreamToStringTransformer ::
  "apigatewayv1_ChatCompleteStreamResponse \<Rightarrow> string" where
  "chatCompleteStreamToStringTransformer res = msg_Content (Response res)"

record 's ChatCompleteStreamResponse =
  Role :: string
  TokenStream :: "('s, apigatewayv1_ChatCompleteStreamResponse, string) ResponseStream"

section \<open>Requests, interceptors and the service handle\<close>

text \<open>
  \<^verbatim>\<open>http.Header\<close> as a map from a field name to its values; \<^verbatim>\<open>Set\<close> replaces whatever
  the field held by the one value, \<^verbatim>\<open>Get\<close> reads the first value.
\<close>

type_synonym Header = "string \<rightharpoonup> string list"

definition Header_Set :: "string \<Rightarrow> string \<Rightarrow> Header \<Rightarrow> Header" where
  "Header_Set k v h = h(k \<mapsto> [v])"

definition Header_Get :: "string \<Rightarrow> Header \<Rightarrow> string" where
  "Header_Get k h = (case h k of Some (v # vs) \<Rightarrow> v | _ \<Rightarrow> [])"

record 'p Request =
  req_Header :: Header
  req_Msg :: 'p

record 'r Response =
  res_Msg :: 'r

definition NewRequest :: "'p \<Rightarrow> 'p Request" where
  "NewRequest m = \<lparr>req_Header = Map.empty, req_Msg = m\<rparr>"

type_synonym ('p, 'r) UnaryFunc = "'p Request \<Rightarrow> error + 'r Response"

type_synonym ('p, 's, 'm) StreamingClientFunc =
  "'p Request \<Rightarrow> error + ('s, 'm) ServerStreamForClient"

definition newAuthInterceptor ::
  "string \<Rightarrow> ('p, 'r) UnaryFunc \<Rightarrow> ('p, 'r) UnaryFunc" where
  "newAuthInterceptor apiKey =
     (\<lambda>next. (\<lambda>req. next (req\<lparr>req_Header := Header_Set ''x-api-key'' apiKey (req_Header req)\<rparr>)))"

text \<open>
  What \<^verbatim>\<open>newAuthInterceptor\<close> returns has the type \<^verbatim>\<open>connect.UnaryInterceptorFunc\<close>.
  connect's \<^verbatim>\<open>Interceptor\<close> interface has one wrapper for unary calls and one for
  streaming client calls, and connect gives \<^verbatim>\<open>UnaryInterceptorFunc\<close> these methods:
  \<^verbatim>\<open>WrapUnary\<close> applies the function, \<^verbatim>\<open>WrapStreamingClient\<close> returns its argument
  (the type "only wraps unary RPCs" and "has no effect on streaming RPCs", in the
  words of the library's documentation). Both belong to the library, not to this
  repository.
\<close>

record ('p, 'r, 's, 'm) Interceptor =
  WrapUnary :: "('p, 'r) UnaryFunc \<Rightarrow> ('p, 'r) UnaryFunc"
  WrapStreamingClient :: "('p, 's, 'm) StreamingClientFunc \<Rightarrow> ('p, 's, 'm) StreamingClientFunc"

definition UnaryInterceptorFunc ::
  "(('p, 'r) UnaryFunc \<Rightarrow> ('p, 'r) UnaryFunc) \<Rightarrow> ('p, 'r, 's, 'm) Interceptor" where
  "UnaryInterceptorFunc f = \<lparr>WrapUnary = f, WrapStreamingClient = (\<lambda>next. next)\<rparr>"

datatype 'h HttpClient = http_DefaultClient | SuppliedClient 'h

datatype procedure =
    ChatCompleteProcedure
  | ChatCompleteStreamProcedure
  | EmbedProcedure
  | TextToImageProcedure
  | TranscribeProcedure

text \<open>
  The service handle \<^verbatim>\<open>NewAPIGatewayServiceClient\<close> builds (generated code) keeps its
  three arguments. What a call puts on the wire and what comes back is the network's
  doing: \<open>roundTrip\<close> and \<open>openStream\<close> stand for the HTTP client at the base URL, and
  the request they are given is the outgoing request. A unary call goes through the
  interceptor's \<^verbatim>\<open>WrapUnary\<close>, a server-streaming call through its
  \<^verbatim>\<open>WrapStreamingClient\<close>.
\<close>

record ('h, 'p, 'r, 's, 'm) APIGatewayServiceClient =
  svc_httpClient :: "'h HttpClient"
  svc_baseUrl :: string
  svc_interceptor :: "('p, 'r, 's, 'm) Interceptor"

definition NewAPIGatewayServiceClient ::
  "'h HttpClient \<Rightarrow> string \<Rightarrow> ('p, 'r, 's, 'm) Interceptor
     \<Rightarrow> ('h, 'p, 'r, 's, 'm) APIGatewayServiceClient" where
  "NewAPIGatewayServiceClient h url i =
     \<lparr>svc_httpClient = h, svc_baseUrl = url, svc_interceptor = i\<rparr>"

record ('h, 'p, 'r, 's, 'm) Network =
  roundTrip :: "'h HttpClient \<Rightarrow> string \<Rightarrow> procedure \<Rightarrow> ('p, 'r) UnaryFunc"
  openStream :: "'h HttpClient \<Rightarrow> string \<Rightarrow> procedure \<Rightarrow> ('p, 's, 'm) StreamingClientFunc"

definition CallUnary ::
  "('h, 'p, 'r, 's, 'm) Network \<Rightarrow> ('h, 'p, 'r, 's, 'm) APIGatewayServiceClient
     \<Rightarrow> procedure \<Rightarrow> ('p, 'r) UnaryFunc" where
  "CallUnary net svc p =
     WrapUnary (svc_interceptor svc) (roundTrip net (svc_httpClient svc) (svc_baseUrl svc) p)"

definition CallServerStream ::
  "('h, 'p, 'r, 's, 'm) Network \<Rightarrow> ('h, 'p, 'r, 's, 'm) APIGatewayServiceClient
     \<Rightarrow> procedure \<Rightarrow> ('p, 's, 'm) StreamingClientFunc" where
  "CallServerStream net svc p =
     WrapStreamingClient (svc_interceptor svc)
       (openStream net (svc_httpClient svc) (svc_baseUrl svc) p)"

section \<open>Client\<close>

definition DefaultBaseUrl :: string where
  "DefaultBaseUrl = ''https://api.function.network''"

record 'h ClientOptions =
  ApiKey :: string
  HttpClient :: "'h HttpClient option"
  BaseUrl :: string

record ('h, 'p, 'r, 's, 'm) Client =
  apiKey :: string
  service :: "('h, 'p, 'r, 's, 'm) APIGatewayServiceClient"

text \<open>
  A Go result \<^verbatim>\<open>(*T, error)\<close> is a pair of options: \<^verbatim>\<open>nil\<close> is \<open>None\<close> on either side.
\<close>

definition NewClient ::
  "'h ClientOptions \<Rightarrow> ('h, 'p, 'r, 's, 'm) Client option \<times> error option" where
  "NewClient options =
     (if ApiKey options = '''' then (None, Some MissingApiKeyError)
      else
        (let httpClient = (case HttpClient options of
                             None \<Rightarrow> http_DefaultClient
                           | Some h \<Rightarrow> h);
             baseUrl = (if BaseUrl options = '''' then DefaultBaseUrl else BaseUrl options);
             service = NewAPIGatewayServiceClient httpClient baseUrl
                         (UnaryInterceptorFunc (newAuthInterceptor (ApiKey options)))
         in (Some \<lparr>apiKey = ApiKey options, service = service\<rparr>, None)))"

definition unary ::
  "('h, 'p, 'r, 's, 'm) Network \<Rightarrow> ('h, 'p, 'r, 's, 'm) Client \<Rightarrow> procedure \<Rightarrow> 'p
     \<Rightarrow> 'r option \<times> error option" where
  "unary net c p request =
     (case CallUnary net (service c) p (NewRequest request) of
        Inl err \<Rightarrow> (None, Some err)
      | Inr res \<Rightarrow> (Some (res_Msg res), None))"

definition ChatComplete ::
  "('h, 'p, 'r, 's, 'm) Network \<Rightarrow> ('h, 'p, 'r, 's, 'm) Client \<Rightarrow> 'p
     \<Rightarrow> 'r option \<times> error option" where
  "ChatComplete net c request = unary net c ChatCompleteProcedure request"

definition Embed ::
  "('h, 'p, 'r, 's, 'm) Network \<Rightarrow> ('h, 'p, 'r, 's, 'm) Client \<Rightarrow> 'p
     \<Rightarrow> 'r option \<times> error option" where
  "Embed net c request = unary net c EmbedProcedure request"

definition TextToImage ::
  "('h, 'p, 'r, 's, 'm) Network \<Rightarrow> ('h, 'p, 'r, 's, 'm) Client \<Rightarrow> 'p
     \<Rightarrow> 'r option \<times> error option" where
  "TextToImage net c request = unary net c TextToImageProcedure request"

definition Transcribe ::
  "('h, 'p, 'r, 's, 'm) Network \<Rightarrow> ('h, 'p, 'r, 's, 'm) Client \<Rightarrow> 'p
     \<Rightarrow> 'r option \<times> error option" where
  "Transcribe net c request = unary net c TranscribeProcedure request"

definition ChatCompleteStream ::
  "('h, 'p, 'r, 's, apigatewayv1_ChatCompleteStreamResponse) Network
     \<Rightarrow> ('h, 'p, 'r, 's, apigatewayv1_ChatCompleteStreamResponse) Client \<Rightarrow> 'p
     \<Rightarrow> 's ChatCompleteStreamResponse option \<times> error option" where
  "ChatCompleteStream net c request =
     (case CallServerStream net (service c) ChatCompleteStreamProcedure (NewRequest request) of
        Inl err \<Rightarrow> (None, Some err)
      | Inr res \<Rightarrow>
          (case Receive res of (ok, res1) \<Rightarrow>
             if \<not> ok then (None, Some TruncatedStreamResponseError)
             else (case Err res1 of
                     Some err \<Rightarrow> (None, Some err)
                   | None \<Rightarrow>
                       (let firstMsg = Msg res1
                        in (Some \<lparr>Role = msg_Role (Response firstMsg),
                                   TokenStream = wrapStream res1 chatCompleteStreamToStringTransformer\<rparr>,
                            None)))))"

section \<open>A scripted transport\<close>

text \<open>
  A transport to run the code on. It is given the frames the peer will send and
  follows the contract connect documents for \<^verbatim>\<open>Receive\<close> and \<^verbatim>\<open>Err\<close>: \<^verbatim>\<open>Receive\<close>
  returns false when the stream stops, at its end or at an error, and keeps
  returning false afterwards; \<^verbatim>\<open>Err\<close> then returns the error, and nil when the stream
  ended cleanly.
\<close>

datatype 'm frame = Message 'm | Failure error

record 'm script =
  frames :: "'m frame list"
  msg :: 'm
  receiveErr :: "error option"
  closeErr :: "error option"

definition script_receive :: "'m script \<Rightarrow> bool \<times> 'm script" where
  "script_receive w =
     (case receiveErr w of
        Some e \<Rightarrow> (False, w)
      | None \<Rightarrow>
          (case frames w of
             [] \<Rightarrow> (False, w\<lparr>receiveErr := Some io_EOF\<rparr>)
           | Message m # fs \<Rightarrow> (True, w\<lparr>frames := fs, msg := m\<rparr>)
           | Failure e # fs \<Rightarrow> (False, w\<lparr>frames := fs, receiveErr := Some e\<rparr>)))"

definition script_err :: "'m script \<Rightarrow> error option" where
  "script_err w =
     (case receiveErr w of
        Some e \<Rightarrow> (if e = io_EOF then None else Some e)
      | None \<Rightarrow> None)"

definition script_close :: "'m script \<Rightarrow> error option \<times> 'm script" where
  "script_close w = (closeErr w, w)"

definition scripted ::
  "'m \<Rightarrow> 'm frame list \<Rightarrow> error option \<Rightarrow> ('m script, 'm) ServerStreamForClient" where
  "scripted zero fs ce =
     \<lparr>conn = \<lparr>frames = fs, msg = zero, receiveErr = None, closeErr = ce\<rparr>,
      receive_impl = script_receive, msg_impl = msg, err_impl = script_err,
      close_impl = script_close\<rparr>"

definition chunk :: "string \<Rightarrow> string \<Rightarrow> apigatewayv1_ChatCompleteStreamResponse" where
  "chunk role content = \<lparr>Response = \<lparr>msg_Role = role, msg_Content = content\<rparr>\<rparr>"

text \<open>
  A gateway to run the client on. It serves a request whose headers it \<open>accepts\<close> and
  answers \<^verbatim>\<open>unauthenticated\<close> otherwise: a unary call is echoed, a streaming call is
  answered with the given frames.
\<close>

definition gateway ::
  "(Header \<Rightarrow> bool) \<Rightarrow> 'm \<Rightarrow> 'm frame list \<Rightarrow> ('h, 'p, 'p, 'm script, 'm) Network" where
  "gateway accepts zero fs =
     \<lparr>roundTrip = (\<lambda>h url p req.
        if accepts (req_Header req) then Inr \<lparr>res_Msg = req_Msg req\<rparr>
        else Inl (TransportError ''unauthenticated'')),
      openStream = (\<lambda>h url p req.
        if accepts (req_Header req) then Inr (scripted zero fs None)
        else Inl (TransportError ''unauthenticated''))\<rparr>"

definition has_api_key :: "string \<Rightarrow> Header \<Rightarrow> bool" where
  "has_api_key k h = (Header_Get ''x-api-key'' h = k)"

text \<open>
  A transport that always has an element, attaches an error to each, and reports an
  error when it is torn down.
\<close>

definition advisory :: "(nat, apigatewayv1_ChatCompleteStreamResponse) ServerStreamForClient" where
  "advisory =
     \<lparr>conn = 0, receive_impl = (\<lambda>n. (True, Suc n)),
      msg_impl = (\<lambda>n. chunk [] ''tok''),
      err_impl = (\<lambda>n. Some (TransportError ''advisory'')),
      close_impl = (\<lambda>n. (Some (TransportError ''teardown''), n))\<rparr>"

section \<open>ResponseStream: reading and closing\<close>

lemma Read_closed: "isClosed r \<Longrightarrow> Read z r = ((z, Some io_EOF), r)"
  by (simp add: Read_def)

lemma Read_open_element:
  "\<not> isClosed r \<Longrightarrow> Receive (stream r) = (True, st) \<Longrightarrow>
     Read z r = ((transformer r (Msg st), Err st), r\<lparr>stream := st\<rparr>)"
  by (simp add: Read_def)

lemma Read_open_stop:
  "\<not> isClosed r \<Longrightarrow> Receive (stream r) = (False, st) \<Longrightarrow>
     Read z r = ((z, Some io_EOF), r\<lparr>isClosed := True, stream := st\<rparr>)"
  by (simp add: Read_def)

lemma Read_open_stream:
  "\<not> isClosed r \<Longrightarrow> stream (snd (Read z r)) = snd (Receive (stream r))"
  by (cases "Receive (stream r)") (simp add: Read_def)

lemma Read_exhausted_isClosed:
  "\<not> fst (Receive (stream r)) \<Longrightarrow> isClosed (snd (Read z r))"
  by (cases "Receive (stream r)") (simp add: Read_def)

lemma requestTeardown_isClosed: "isClosed (snd (requestTeardown r)) = isClosed r"
  by (cases "stream_Close (stream r)") (simp add: requestTeardown_def)

lemma Close_isClosed: "isClosed (snd (Close r))"
  by (simp add: Close_def requestTeardown_isClosed)

lemma run_closed:
  "isClosed r \<Longrightarrow>
     isClosed (snd (run z cs r)) \<and> length (fst (run z cs r)) = length cs \<and>
     (\<forall>i<length cs.
        (cs ! i = CallRead \<longrightarrow> fst (run z cs r) ! i = ReadReturned z (Some io_EOF)) \<and>
        (cs ! i = CallIsClosed \<longrightarrow> fst (run z cs r) ! i = IsClosedReturned True))"
proof (induction cs arbitrary: r)
  case Nil
  then show ?case by simp
next
  case (Cons c cs)
  show ?case
  proof (cases c)
    case CallRead
    from Cons.IH [OF Cons.prems] Cons.prems show ?thesis
      by (auto simp: CallRead Read_closed nth_Cons split: prod.split nat.split)
  next
    case CallClose
    have "isClosed (snd (Close r))" by (rule Close_isClosed)
    from Cons.IH [OF this] show ?thesis
      by (auto simp: CallClose nth_Cons split: prod.split nat.split)
  next
    case CallIsClosed
    from Cons.IH [OF Cons.prems] Cons.prems show ?thesis
      by (auto simp: CallIsClosed IsClosed_def nth_Cons split: prod.split nat.split)
  qed
qed

text \<open>
  Claim C1. Once a ResponseStream is closed, whether by a \<^verbatim>\<open>Close\<close> call, by a \<^verbatim>\<open>Read\<close>
  whose \<^verbatim>\<open>Receive\<close> reported that the stream stopped, or because it was closed
  already, it stays closed through every later sequence of \<^verbatim>\<open>Read\<close>, \<^verbatim>\<open>Close\<close> and
  \<^verbatim>\<open>IsClosed\<close> calls: each \<^verbatim>\<open>IsClosed\<close> answers true, and each \<^verbatim>\<open>Read\<close> returns the zero
  value together with \<^verbatim>\<open>io.EOF\<close>, however many there are.
\<close>

theorem ResponseStream_closed_is_terminal:
  assumes "r = snd (Close r0) \<or>
           (r = snd (Read z r0) \<and> \<not> fst (Receive (stream r0))) \<or>
           (r = r0 \<and> isClosed r0)"
  shows "isClosed (snd (run z cs r)) \<and> length (fst (run z cs r)) = length cs \<and>
     (\<forall>i<length cs.
        (cs ! i = CallRead \<longrightarrow> fst (run z cs r) ! i = ReadReturned z (Some io_EOF)) \<and>
        (cs ! i = CallIsClosed \<longrightarrow> fst (run z cs r) ! i = IsClosedReturned True))"
proof -
  from assms have "isClosed r"
    using Close_isClosed [of r0] Read_exhausted_isClosed [of r0 z] by auto
  then show ?thesis by (rule run_closed)
qed

theorem ResponseStream_closed_is_terminal_witness:
  "isClosed (snd (run [] [CallRead, CallIsClosed, CallClose, CallRead]
     (snd (Read [] (wrapStream (scripted (chunk [] []) [] None)
        chatCompleteStreamToStringTransformer))))) \<and>
   fst (run [] [CallRead, CallIsClosed, CallClose, CallRead]
     (snd (Read [] (wrapStream (scripted (chunk [] []) [] None)
        chatCompleteStreamToStringTransformer)))) =
     [ReadReturned [] (Some io_EOF), IsClosedReturned True, CloseReturned None,
      ReadReturned [] (Some io_EOF)]"
proof -
  let ?r0 = "wrapStream (scripted (chunk [] []) [] None) chatCompleteStreamToStringTransformer"
  have h: "snd (Read [] ?r0) = snd (Close ?r0) \<or>
           (snd (Read [] ?r0) = snd (Read [] ?r0) \<and> \<not> fst (Receive (stream ?r0))) \<or>
           (snd (Read [] ?r0) = ?r0 \<and> isClosed ?r0)"
    by (simp add: wrapStream_def scripted_def Receive_def script_receive_def)
  from ResponseStream_closed_is_terminal
         [OF h, of "[CallRead, CallIsClosed, CallClose, CallRead]"]
  show ?thesis
    by (simp add: Read_def Close_def requestTeardown_def stream_Close_def IsClosed_def
        wrapStream_def scripted_def Receive_def script_receive_def script_close_def)
qed

text \<open>
  Claim C10. When a \<^verbatim>\<open>Read\<close> on an open stream finds an element (\<^verbatim>\<open>Receive\<close> reports
  true), it returns the transformer's projection of the message paired with whatever
  \<^verbatim>\<open>Err\<close> reports, nil or not; the closed flag stays false, only the transport handle
  has advanced; and the next \<^verbatim>\<open>Read\<close> calls \<^verbatim>\<open>Receive\<close> on the transport again.
\<close>

theorem Read_element_keeps_stream_open:
  assumes "\<not> isClosed r" and "Receive (stream r) = (True, st)"
  shows "Read z r = ((transformer r (Msg st), Err st), r\<lparr>stream := st\<rparr>) \<and>
         \<not> isClosed (snd (Read z r)) \<and>
         stream (snd (Read z (snd (Read z r)))) = snd (Receive st)"
proof -
  have 1: "Read z r = ((transformer r (Msg st), Err st), r\<lparr>stream := st\<rparr>)"
    using assms by (rule Read_open_element)
  have 2: "\<not> isClosed (r\<lparr>stream := st\<rparr>)" using assms(1) by simp
  have 3: "stream (snd (Read z (r\<lparr>stream := st\<rparr>))) = snd (Receive st)"
    using Read_open_stream [OF 2, of z] by simp
  show ?thesis using 1 2 3 by simp
qed

theorem Read_element_keeps_stream_open_witness:
  "Read [] (wrapStream advisory chatCompleteStreamToStringTransformer) =
     ((''tok'', Some (TransportError ''advisory'')),
      wrapStream (advisory\<lparr>conn := 1\<rparr>) chatCompleteStreamToStringTransformer) \<and>
   \<not> isClosed (snd (Read [] (wrapStream advisory chatCompleteStreamToStringTransformer))) \<and>
   conn (stream (snd (Read [] (snd (Read []
     (wrapStream advisory chatCompleteStreamToStringTransformer)))))) = 2"
proof -
  let ?r = "wrapStream advisory chatCompleteStreamToStringTransformer"
  have h1: "\<not> isClosed ?r" by (simp add: wrapStream_def)
  have h2: "Receive (stream ?r) = (True, advisory\<lparr>conn := 1\<rparr>)"
    by (simp add: wrapStream_def Receive_def advisory_def)
  from Read_element_keeps_stream_open [OF h1 h2, of "[]"] show ?thesis
    by (simp add: Read_def wrapStream_def Receive_def Msg_def Err_def advisory_def chunk_def
        chatCompleteStreamToStringTransformer_def)
qed

text \<open>
  Claim C4. A \<^verbatim>\<open>Read\<close> propagates the transport's errors unmodified and maps only the
  "no more data" signal to \<^verbatim>\<open>io.EOF\<close>. The code consults \<^verbatim>\<open>Err\<close> only after \<^verbatim>\<open>Receive\<close>
  reported an element: when \<^verbatim>\<open>Receive\<close> reports false because the transport failed,
  \<^verbatim>\<open>Read\<close> returns \<^verbatim>\<open>io.EOF\<close> and closes the stream, while \<^verbatim>\<open>Err\<close> holds the failure that
  was never returned. Evaluated on a stream whose first frame is a failure.
\<close>

theorem Read_reports_receive_failure_as_EOF:
  "fst (Read [] (wrapStream
          (scripted (chunk [] []) [Failure (TransportError ''unavailable'')] None)
          chatCompleteStreamToStringTransformer)) = ([], Some io_EOF) \<and>
   Err (stream (snd (Read [] (wrapStream
          (scripted (chunk [] []) [Failure (TransportError ''unavailable'')] None)
          chatCompleteStreamToStringTransformer)))) = Some (TransportError ''unavailable'')"
  by (simp add: Read_def wrapStream_def scripted_def Receive_def Err_def script_receive_def
      script_err_def)

lemma Close_result:
  "Close r = (fst (stream_Close (stream r)),
              r\<lparr>isClosed := True, stream := snd (stream_Close (stream r))\<rparr>)"
  by (cases "stream_Close (stream r)") (simp add: Close_def requestTeardown_def)

lemma run_Close_Cons:
  "snd (run z (CallClose # cs) r) = snd (run z cs (snd (Close r)))"
  by (cases "Close r"; cases "run z cs (snd (Close r))") simp

lemma run_Close_replicate: "isClosed (snd (run z (replicate (Suc n) CallClose) r))"
proof -
  have "isClosed (snd (run z (replicate n CallClose) (snd (Close r))))"
    using run_closed [OF Close_isClosed, of z "replicate n CallClose" r] by simp
  then show ?thesis by (simp only: replicate_Suc run_Close_Cons)
qed

text \<open>
  Claim C8. \<^verbatim>\<open>Close\<close> first marks the stream closed and then requests the transport's
  teardown, so the teardown is requested of a stream that is closed already and cannot
  undo that; \<^verbatim>\<open>Close\<close> returns what the transport's teardown reports, error or nil; the
  stream it leaves is closed whatever was reported; and after any number of \<^verbatim>\<open>Close\<close>
  calls in a row, one or more, the stream is closed.
\<close>

theorem Close_always_closes:
  "Close r = requestTeardown (r\<lparr>isClosed := True\<rparr>) \<and>
   isClosed (snd (requestTeardown (r\<lparr>isClosed := True\<rparr>))) \<and>
   fst (Close r) = fst (stream_Close (stream r)) \<and>
   snd (Close r) = r\<lparr>isClosed := True, stream := snd (stream_Close (stream r))\<rparr> \<and>
   (\<forall>n. isClosed (snd (run z (replicate (Suc n) CallClose) r)))"
proof -
  have 1: "Close r = requestTeardown (r\<lparr>isClosed := True\<rparr>)" by (simp add: Close_def)
  have 2: "isClosed (snd (requestTeardown (r\<lparr>isClosed := True\<rparr>)))"
    by (simp add: requestTeardown_isClosed)
  have 3: "fst (Close r) = fst (stream_Close (stream r))" by (simp add: Close_result)
  have 4: "snd (Close r) = r\<lparr>isClosed := True, stream := snd (stream_Close (stream r))\<rparr>"
    by (simp add: Close_result)
  have 5: "\<forall>n. isClosed (snd (run z (replicate (Suc n) CallClose) r))"
    by (simp only: run_Close_replicate simp_thms)
  from 1 2 3 4 5 show ?thesis by (intro conjI)
qed

theorem Close_always_closes_witness:
  "fst (Close (wrapStream advisory chatCompleteStreamToStringTransformer)) =
     Some (TransportError ''teardown'') \<and>
   isClosed (snd (Close (wrapStream advisory chatCompleteStreamToStringTransformer))) \<and>
   fst (Close (snd (Close (wrapStream advisory chatCompleteStreamToStringTransformer)))) =
     Some (TransportError ''teardown'') \<and>
   isClosed (snd (Close (snd (Close (wrapStream advisory chatCompleteStreamToStringTransformer)))))"
  using Close_always_closes [of "wrapStream advisory chatCompleteStreamToStringTransformer" "[]"]
    Close_always_closes [of "snd (Close (wrapStream advisory chatCompleteStreamToStringTransformer))" "[]"]
  by (simp add: Close_def requestTeardown_def stream_Close_def wrapStream_def advisory_def)

section \<open>Constructing a Client\<close>

lemma NewClient_ok:
  "ApiKey opts \<noteq> [] \<Longrightarrow>
     NewClient opts =
       (Some \<lparr>apiKey = ApiKey opts,
              service = NewAPIGatewayServiceClient
                (case HttpClient opts of None \<Rightarrow> http_DefaultClient | Some h \<Rightarrow> h)
                (if BaseUrl opts = [] then DefaultBaseUrl else BaseUrl opts)
                (UnaryInterceptorFunc (newAuthInterceptor (ApiKey opts)))\<rparr>, None)"
  by (simp add: NewClient_def Let_def)

lemma NewClient_missing: "ApiKey opts = [] \<Longrightarrow> NewClient opts = (None, Some MissingApiKeyError)"
  by (simp add: NewClient_def)

lemma NewClient_interceptor:
  "NewClient opts = (Some c, None) \<Longrightarrow>
     svc_interceptor (service c) = UnaryInterceptorFunc (newAuthInterceptor (ApiKey opts))"
  by (cases "ApiKey opts = []")
     (auto simp: NewClient_missing NewClient_ok NewAPIGatewayServiceClient_def)

text \<open>
  Claim C7. \<^verbatim>\<open>NewClient\<close> returns \<^verbatim>\<open>(nil, MissingApiKeyError)\<close> when the API key is the
  empty string (which is also what an options value that sets no key holds), and for
  every options value with a non-empty key, whatever its HTTP client and base URL, it
  returns a client and a nil error. So no client is returned exactly when the key is
  empty, and \<^verbatim>\<open>MissingApiKeyError\<close> is returned exactly then.
\<close>

theorem NewClient_validates_only_ApiKey:
  "(ApiKey opts = [] \<longrightarrow>
      (NewClient opts :: ('h, 'p, 'r, 's, 'm) Client option \<times> error option) =
        (None, Some MissingApiKeyError)) \<and>
   (ApiKey opts \<noteq> [] \<longrightarrow>
      (\<exists>c. (NewClient opts :: ('h, 'p, 'r, 's, 'm) Client option \<times> error option) =
        (Some c, None))) \<and>
   (fst (NewClient opts :: ('h, 'p, 'r, 's, 'm) Client option \<times> error option) = None
      \<longleftrightarrow> ApiKey opts = []) \<and>
   (snd (NewClient opts :: ('h, 'p, 'r, 's, 'm) Client option \<times> error option) =
      Some MissingApiKeyError \<longleftrightarrow> ApiKey opts = [])"
  by (cases "ApiKey opts = []") (simp_all add: NewClient_missing NewClient_ok)

theorem NewClient_validates_only_ApiKey_witness:
  "(NewClient \<lparr>ApiKey = [], HttpClient = None, BaseUrl = []\<rparr>
      :: (unit, unit, unit, unit, unit) Client option \<times> error option) =
     (None, Some MissingApiKeyError) \<and>
   fst (NewClient \<lparr>ApiKey = ''mykey'', HttpClient = None, BaseUrl = []\<rparr>
      :: (unit, unit, unit, unit, unit) Client option \<times> error option) \<noteq> None \<and>
   snd (NewClient \<lparr>ApiKey = ''mykey'', HttpClient = Some (SuppliedClient ()),
                    BaseUrl = ''not a url''\<rparr>
      :: (unit, unit, unit, unit, unit) Client option \<times> error option) = None"
  using NewClient_validates_only_ApiKey
          [where ?'h = unit and ?'p = unit and ?'r = unit and ?'s = unit and ?'m = unit
             and opts = "\<lparr>ApiKey = [], HttpClient = None, BaseUrl = []\<rparr>"]
        NewClient_validates_only_ApiKey
          [where ?'h = unit and ?'p = unit and ?'r = unit and ?'s = unit and ?'m = unit
             and opts = "\<lparr>ApiKey = ''mykey'', HttpClient = None, BaseUrl = []\<rparr>"]
        NewClient_validates_only_ApiKey
          [where ?'h = unit and ?'p = unit and ?'r = unit and ?'s = unit and ?'m = unit
             and opts = "\<lparr>ApiKey = ''mykey'', HttpClient = Some (SuppliedClient ()),
                          BaseUrl = ''not a url''\<rparr>"]
  by auto

text \<open>
  Claim C9. When \<^verbatim>\<open>NewClient\<close> succeeds, the service handle is built on
  \<^verbatim>\<open>http.DefaultClient\<close> if the options hold no HTTP client and on the caller's client
  otherwise, and on the base URL \<^verbatim>\<open>https://api.function.network\<close> if the options' base
  URL is empty and on the caller's base URL otherwise.
\<close>

theorem NewClient_resolves_defaults:
  assumes "ApiKey opts \<noteq> []"
  shows "\<exists>c. (NewClient opts :: ('h, 'p, 'r, 's, 'm) Client option \<times> error option) =
            (Some c, None) \<and>
           (HttpClient opts = None \<longrightarrow> svc_httpClient (service c) = http_DefaultClient) \<and>
           (\<forall>h. HttpClient opts = Some h \<longrightarrow> svc_httpClient (service c) = h) \<and>
           (BaseUrl opts = [] \<longrightarrow>
              svc_baseUrl (service c) = ''https://api.function.network'') \<and>
           (BaseUrl opts \<noteq> [] \<longrightarrow> svc_baseUrl (service c) = BaseUrl opts)"
  by (simp add: NewClient_ok [OF assms] NewAPIGatewayServiceClient_def DefaultBaseUrl_def)

theorem NewClient_resolves_defaults_witness:
  "(\<exists>c. (NewClient \<lparr>ApiKey = ''mykey'', HttpClient = None, BaseUrl = []\<rparr>
           :: (unit, unit, unit, unit, unit) Client option \<times> error option) = (Some c, None) \<and>
         svc_httpClient (service c) = http_DefaultClient \<and>
         svc_baseUrl (service c) = ''https://api.function.network'') \<and>
   (\<exists>c. (NewClient \<lparr>ApiKey = ''mykey'', HttpClient = Some (SuppliedClient ()),
                      BaseUrl = ''http://localhost:8080''\<rparr>
           :: (unit, unit, unit, unit, unit) Client option \<times> error option) = (Some c, None) \<and>
         svc_httpClient (service c) = SuppliedClient () \<and>
         svc_baseUrl (service c) = ''http://localhost:8080'')"
  using NewClient_resolves_defaults
          [where ?'h = unit and ?'p = unit and ?'r = unit and ?'s = unit and ?'m = unit
             and opts = "\<lparr>ApiKey = ''mykey'', HttpClient = None, BaseUrl = []\<rparr>"]
        NewClient_resolves_defaults
          [where ?'h = unit and ?'p = unit and ?'r = unit and ?'s = unit and ?'m = unit
             and opts = "\<lparr>ApiKey = ''mykey'', HttpClient = Some (SuppliedClient ()),
                          BaseUrl = ''http://localhost:8080''\<rparr>"]
  by auto

section \<open>The credential header\<close>

lemma Header_Get_Set: "Header_Get k (Header_Set k v h) = v"
  by (simp add: Header_Get_def Header_Set_def)

text \<open>
  A unary call of a constructed client reaches the network with \<^verbatim>\<open>x-api-key\<close> set to
  the configured key.
\<close>

lemma unary_request_carries_api_key:
  assumes "NewClient opts = (Some c, None)"
  shows "CallUnary net (service c) p req =
           roundTrip net (svc_httpClient (service c)) (svc_baseUrl (service c)) p
             (req\<lparr>req_Header := Header_Set ''x-api-key'' (ApiKey opts) (req_Header req)\<rparr>)"
  by (simp add: CallUnary_def NewClient_interceptor [OF assms] UnaryInterceptorFunc_def
      newAuthInterceptor_def)

text \<open>
  A streaming call reaches the network with the request as the caller built it: the
  interceptor registered by \<^verbatim>\<open>NewClient\<close> wraps unary calls only.
\<close>

lemma stream_request_not_intercepted:
  assumes "NewClient opts = (Some c, None)"
  shows "CallServerStream net (service c) p req =
           openStream net (svc_httpClient (service c)) (svc_baseUrl (service c)) p req"
  by (simp add: CallServerStream_def NewClient_interceptor [OF assms] UnaryInterceptorFunc_def)

text \<open>
  Claim C2. Every RPC of a constructed client, unary or streaming, carries
  \<^verbatim>\<open>x-api-key\<close> set to the configured key. Evaluated against a gateway that serves only
  requests carrying \<^verbatim>\<open>x-api-key: mykey\<close>, with a client constructed with that key:
  \<^verbatim>\<open>ChatComplete\<close> is served, \<^verbatim>\<open>ChatCompleteStream\<close> is refused as unauthenticated,
  because its request goes out without the header.
\<close>

theorem ChatCompleteStream_request_lacks_api_key:
  "\<exists>c. NewClient \<lparr>ApiKey = ''mykey'', HttpClient = None, BaseUrl = []\<rparr> = (Some c, None) \<and>
        ChatComplete
          (gateway (has_api_key ''mykey'') (chunk [] []) [Message (chunk ''assistant'' [])]
             :: (unit, string, string, _, _) Network)
          c ''hi'' = (Some ''hi'', None) \<and>
        ChatCompleteStream
          (gateway (has_api_key ''mykey'') (chunk [] []) [Message (chunk ''assistant'' [])])
          c ''hi'' = (None, Some (TransportError ''unauthenticated''))"
  by (simp add: NewClient_ok ChatComplete_def unary_def CallUnary_def ChatCompleteStream_def
      CallServerStream_def NewAPIGatewayServiceClient_def UnaryInterceptorFunc_def
      newAuthInterceptor_def NewRequest_def gateway_def has_api_key_def Header_Get_def
      Header_Set_def)

section \<open>ChatCompleteStream\<close>

lemma ChatCompleteStream_stopped:
  assumes "CallServerStream net (service c) ChatCompleteStreamProcedure (NewRequest request) = Inr res"
      and "Receive res = (False, res1)"
  shows "ChatCompleteStream net c request = (None, Some TruncatedStreamResponseError)"
  using assms by (simp add: ChatCompleteStream_def)

lemma ChatCompleteStream_first_element:
  assumes "CallServerStream net (service c) ChatCompleteStreamProcedure (NewRequest request) = Inr res"
      and "Receive res = (True, res1)"
  shows "ChatCompleteStream net c request =
           (case Err res1 of
              Some err \<Rightarrow> (None, Some err)
            | None \<Rightarrow> (Some \<lparr>Role = msg_Role (Response (Msg res1)),
                              TokenStream = wrapStream res1 chatCompleteStreamToStringTransformer\<rparr>,
                        None))"
  using assms by (simp add: ChatCompleteStream_def Let_def split: option.split)

text \<open>
  Claim C5. When the streaming call was set up and the first \<^verbatim>\<open>Receive\<close> on its stream
  reports that there is no element, \<^verbatim>\<open>ChatCompleteStream\<close> returns no response value
  and \<^verbatim>\<open>TruncatedStreamResponseError\<close>.
\<close>

theorem ChatCompleteStream_empty_stream_is_truncated:
  assumes "CallServerStream net (service c) ChatCompleteStreamProcedure (NewRequest request) = Inr res"
      and "\<not> fst (Receive res)"
  shows "ChatCompleteStream net c request = (None, Some TruncatedStreamResponseError)"
proof -
  obtain res1 where "Receive res = (False, res1)"
    using assms(2) by (cases "Receive res") auto
  with assms(1) show ?thesis by (rule ChatCompleteStream_stopped)
qed

theorem ChatCompleteStream_empty_stream_is_truncated_witness:
  "\<exists>c. NewClient \<lparr>ApiKey = ''mykey'', HttpClient = None, BaseUrl = []\<rparr> = (Some c, None) \<and>
        ChatCompleteStream (gateway (\<lambda>h. True) (chunk [] []) [] :: (unit, string, string, _, _) Network)
          c ''hi'' = (None, Some TruncatedStreamResponseError)"
proof -
  let ?net = "gateway (\<lambda>h. True) (chunk [] []) [] ::
                (unit, string, string, apigatewayv1_ChatCompleteStreamResponse script,
                 apigatewayv1_ChatCompleteStreamResponse) Network"
  let ?opts = "\<lparr>ApiKey = ''mykey'', HttpClient = None, BaseUrl = []\<rparr> :: unit ClientOptions"
  obtain c :: "(unit, string, string, apigatewayv1_ChatCompleteStreamResponse script,
                 apigatewayv1_ChatCompleteStreamResponse) Client"
    where c: "NewClient ?opts = (Some c, None)"
    by (simp add: NewClient_ok)
  have h1: "CallServerStream ?net (service c) ChatCompleteStreamProcedure (NewRequest ''hi'') =
              Inr (scripted (chunk [] []) [] None)"
    by (simp add: stream_request_not_intercepted [OF c] gateway_def)
  have h2: "\<not> fst (Receive (scripted (chunk [] []) [] None))"
    by (simp add: Receive_def scripted_def script_receive_def)
  from ChatCompleteStream_empty_stream_is_truncated [OF h1 h2] c show ?thesis by blast
qed

text \<open>
  Claim C3. A transport error at the first read of \<^verbatim>\<open>ChatCompleteStream\<close> is propagated
  to the caller, and \<^verbatim>\<open>TruncatedStreamResponseError\<close> is kept for a stream that ends
  with no element. The code propagates \<^verbatim>\<open>Err\<close> only when \<^verbatim>\<open>Receive\<close> reported an element
  (\<open>ChatCompleteStream_first_element\<close>); when the first \<^verbatim>\<open>Receive\<close> reports false because
  the transport failed, the failure is replaced by \<^verbatim>\<open>TruncatedStreamResponseError\<close>.
  Evaluated on a stream whose first frame is a failure.
\<close>

theorem ChatCompleteStream_reports_receive_failure_as_truncated:
  "\<exists>c. NewClient \<lparr>ApiKey = ''mykey'', HttpClient = None, BaseUrl = []\<rparr> = (Some c, None) \<and>
        ChatCompleteStream
          (gateway (\<lambda>h. True) (chunk [] []) [Failure (TransportError ''unavailable'')]
             :: (unit, string, string, _, _) Network)
          c ''hi'' = (None, Some TruncatedStreamResponseError)"
  by (simp add: NewClient_ok ChatCompleteStream_def CallServerStream_def
      NewAPIGatewayServiceClient_def UnaryInterceptorFunc_def gateway_def Receive_def
      scripted_def script_receive_def)

text \<open>
  Claim C6. When the stream of a \<^verbatim>\<open>ChatCompleteStream\<close> call delivers a first element
  with role \<^verbatim>\<open>assistant\<close>, then elements with content \<^verbatim>\<open>Hello\<close> and \<^verbatim>\<open> world\<close>, none with
  an error attached, and then stops, the call returns a response whose \<^verbatim>\<open>Role\<close> is
  \<^verbatim>\<open>assistant\<close>, and three successive reads of its token stream return \<^verbatim>\<open>Hello\<close>,
  \<^verbatim>\<open> world\<close> and then the empty string with \<^verbatim>\<open>io.EOF\<close>.
\<close>

theorem ChatCompleteStream_assistant_Hello_world:
  assumes "CallServerStream net (service c) ChatCompleteStreamProcedure (NewRequest request) = Inr s0"
      and "Receive s0 = (True, s1)" and "Err s1 = None"
      and "msg_Role (Response (Msg s1)) = ''assistant''"
      and "Receive s1 = (True, s2)" and "Err s2 = None"
      and "msg_Content (Response (Msg s2)) = ''Hello''"
      and "Receive s2 = (True, s3)" and "Err s3 = None"
      and "msg_Content (Response (Msg s3)) = '' world''"
      and "Receive s3 = (False, s4)"
  shows "\<exists>resp. ChatCompleteStream net c request = (Some resp, None) \<and>
           Role resp = ''assistant'' \<and>
           fst (run [] [CallRead, CallRead, CallRead] (TokenStream resp)) =
             [ReadReturned ''Hello'' None, ReadReturned '' world'' None,
              ReadReturned [] (Some io_EOF)]"
proof -
  let ?f = chatCompleteStreamToStringTransformer
  have call: "ChatCompleteStream net c request =
                (Some \<lparr>Role = ''assistant'', TokenStream = wrapStream s1 ?f\<rparr>, None)"
    using ChatCompleteStream_first_element [OF assms(1) assms(2)] assms(3) assms(4) by simp
  have r1: "Read [] (wrapStream s1 ?f) = ((''Hello'', None), wrapStream s2 ?f)"
    using assms(5-7) by (simp add: Read_def wrapStream_def chatCompleteStreamToStringTransformer_def)
  have r2: "Read [] (wrapStream s2 ?f) = (('' world'', None), wrapStream s3 ?f)"
    using assms(8-10) by (simp add: Read_def wrapStream_def chatCompleteStreamToStringTransformer_def)
  have r3: "fst (Read [] (wrapStream s3 ?f)) = ([], Some io_EOF)"
    using assms(11) by (simp add: Read_def wrapStream_def)
  have "fst (run [] [CallRead, CallRead, CallRead] (wrapStream s1 ?f)) =
          [ReadReturned ''Hello'' None, ReadReturned '' world'' None,
           ReadReturned [] (Some io_EOF)]"
    using r1 r2 r3 by (cases "Read [] (wrapStream s3 ?f)") auto
  with call show ?thesis by simp
qed

theorem ChatCompleteStream_assistant_Hello_world_witness:
  "\<exists>c resp.
      NewClient \<lparr>ApiKey = ''mykey'', HttpClient = None, BaseUrl = []\<rparr> = (Some c, None) \<and>
      ChatCompleteStream
        (gateway (\<lambda>h. True) (chunk [] [])
           [Message (chunk ''assistant'' []), Message (chunk [] ''Hello''),
            Message (chunk [] '' world'')] :: (unit, string, string, _, _) Network)
        c ''hi'' = (Some resp, None) \<and>
      Role resp = ''assistant'' \<and>
      fst (run [] [CallRead, CallRead, CallRead] (TokenStream resp)) =
        [ReadReturned ''Hello'' None, ReadReturned '' world'' None,
         ReadReturned [] (Some io_EOF)]"
proof -
  let ?fs = "[Message (chunk ''assistant'' []), Message (chunk [] ''Hello''),
              Message (chunk [] '' world'')]"
  let ?net = "gateway (\<lambda>h. True) (chunk [] []) ?fs ::
                (unit, string, string, apigatewayv1_ChatCompleteStreamResponse script,
                 apigatewayv1_ChatCompleteStreamResponse) Network"
  let ?opts = "\<lparr>ApiKey = ''mykey'', HttpClient = None, BaseUrl = []\<rparr> :: unit ClientOptions"
  let ?s0 = "scripted (chunk [] []) ?fs None"
  let ?s1 = "?s0\<lparr>conn := \<lparr>frames = tl ?fs, msg = chunk ''assistant'' [],
                                receiveErr = None, closeErr = None\<rparr>\<rparr>"
  let ?s2 = "?s0\<lparr>conn := \<lparr>frames = tl (tl ?fs), msg = chunk [] ''Hello'',
                                receiveErr = None, closeErr = None\<rparr>\<rparr>"
  let ?s3 = "?s0\<lparr>conn := \<lparr>frames = [], msg = chunk [] '' world'',
                                receiveErr = None, closeErr = None\<rparr>\<rparr>"
  let ?s4 = "?s0\<lparr>conn := \<lparr>frames = [], msg = chunk [] '' world'',
                                receiveErr = Some io_EOF, closeErr = None\<rparr>\<rparr>"
  obtain c :: "(unit, string, string, apigatewayv1_ChatCompleteStreamResponse script,
                 apigatewayv1_ChatCompleteStreamResponse) Client"
    where c: "NewClient ?opts = (Some c, None)"
    by (simp add: NewClient_ok)
  have h0: "CallServerStream ?net (service c) ChatCompleteStreamProcedure (NewRequest ''hi'') =
              Inr ?s0"
    by (simp add: stream_request_not_intercepted [OF c] gateway_def)
  have h1: "Receive ?s0 = (True, ?s1)" "Receive ?s1 = (True, ?s2)" "Receive ?s2 = (True, ?s3)"
    "Receive ?s3 = (False, ?s4)"
    by (simp_all add: Receive_def scripted_def script_receive_def)
  have h2: "Err ?s1 = None" "Err ?s2 = None" "Err ?s3 = None"
    by (simp_all add: Err_def scripted_def script_err_def)
  have h3: "msg_Role (Response (Msg ?s1)) = ''assistant''"
    "msg_Content (Response (Msg ?s2)) = ''Hello''"
    "msg_Content (Response (Msg ?s3)) = '' world''"
    by (simp_all add: Msg_def scripted_def chunk_def)
  from ChatCompleteStream_assistant_Hello_world
         [OF h0 h1(1) h2(1) h3(1) h1(2) h2(2) h3(2) h1(3) h2(3) h3(3) h1(4)] c
  show ?thesis by blast
qed

end
